theory Spec2Isabelle
  imports Complex_Main "HOL-Library.AList"
begin

section \<open>Shared vocabulary of the components\<close>

text \<open>
  The model follows the TypeScript sources function by function. Mutable component
  fields are record fields, every method takes the component and returns the updated
  one, and whatever a method does to the outside world (console output, toasts,
  navigation, emitted events, repository calls) is appended to a trace of effects.
  A JavaScript exception is a value of type \<open>thrown\<close>; a method that can throw returns
  \<open>thrown + result\<close>, with \<open>Inl\<close> for the exception. Item counts, page numbers and limits
  are integers.
\<close>

text \<open>
  Values a \<^verbatim>\<open>throw\<close> or a rejected promise can carry: \<^verbatim>\<open>undefined\<close>, or an error
  object, given by its \<^verbatim>\<open>name\<close> and its \<^verbatim>\<open>message\<close>.
\<close>

datatype thrown = Undefined | ErrorObject string string

abbreviation Error :: "string \<Rightarrow> thrown" where
  "Error m \<equiv> ErrorObject ''Error'' m"

abbreviation TypeError :: "string \<Rightarrow> thrown" where
  "TypeError m \<equiv> ErrorObject ''TypeError'' m"

text \<open>
  The second argument of \<^verbatim>\<open>consoleError\<close> and \<^verbatim>\<open>consoleWarn\<close>: a message, or the
  thrown value itself when it has no message.
\<close>

datatype logged = LStr string | LVal thrown

text \<open>The JavaScript expression \<^verbatim>\<open>error?.message\<close>; \<open>None\<close> when it is falsy.\<close>

fun message :: "thrown \<Rightarrow> string option" where
  "message Undefined = None"
| "message (ErrorObject n m) = (if m = [] then None else Some m)"

text \<open>
  \<^verbatim>\<open>String(x)\<close> for a thrown value, which for an error object is
  \<^verbatim>\<open>Error.prototype.toString\<close>; and \<^verbatim>\<open>new Error(x)\<close>, whose message is that string,
  and the empty string when \<open>x\<close> is \<^verbatim>\<open>undefined\<close>.
\<close>

fun js_String :: "thrown \<Rightarrow> string" where
  "js_String Undefined = ''undefined''"
| "js_String (ErrorObject n m) = (if n = [] then m else if m = [] then n else n @ '': '' @ m)"

definition new_Error :: "thrown \<Rightarrow> thrown" where
  "new_Error x = ErrorObject ''Error'' (case x of Undefined \<Rightarrow> [] | ErrorObject n m \<Rightarrow> js_String x)"

text \<open>\<^verbatim>\<open>error?.message || error\<close>\<close>

definition message_or_error :: "thrown \<Rightarrow> logged" where
  "message_or_error e = (case message e of Some m \<Rightarrow> LStr m | None \<Rightarrow> LVal e)"

text \<open>
  The trace of observable actions. \<open>Call\<close> carries what is specific to one component:
  an emitted event or a repository call.
\<close>

datatype 'c effect =
    ConsoleWarn logged
  | ConsoleError logged
  | Toast string
  | BackToLastPage
  | Call 'c

text \<open>The names in \<^verbatim>\<open>EventConstants\<close> that the modelled code uses.\<close>

datatype EventConstants = REFRESH_EVENT | SUBMIT_EVENT | CLICK_EVENT

datatype 'd BaseCustomEvent =
  BaseCustomEvent (ev_name: EventConstants) (ev_data: 'd) (ev_component: string)

text \<open>
  A JavaScript number that counts pages: an integer, or \<^verbatim>\<open>Infinity\<close>, which is what
  \<^verbatim>\<open>Math.floor(length / 0)\<close> gives for a positive length.
\<close>

datatype jsnum = Fin int | Infinity

section \<open>The list component\<close>

datatype ListComponentsTypes = INFINITE | PAGINATED

text \<open>
  What \<^verbatim>\<open>await this.source()\<close> can resolve to: an array, or an object whose
  \<^verbatim>\<open>response.data\<close> or \<^verbatim>\<open>results\<close> holds the array (both may be missing).
\<close>

datatype 'a response = RArray "'a list" | RObject "'a list option" "'a list option"

text \<open>
  The \<^verbatim>\<open>source\<close> input: missing, a string, or a function, given by what a call of it
  yields.
\<close>

datatype 'a source = NoSource | SourceString string | SourceFunction "thrown + 'a response"

text \<open>
  The external paginator, given by what \<^verbatim>\<open>paginator.page(n)\<close> yields.
\<close>

type_synonym 'a Paginator = "int \<Rightarrow> thrown + 'a list"

text \<open>What the list component emits or calls on its collaborators.\<close>

datatype 'a list_call =
    RefreshEmit "'a list BaseCustomEvent"
  | TargetComplete

text \<open>The argument of \<^verbatim>\<open>refresh\<close>: a boolean flag, or a UI event with a target.\<close>

datatype refresh_event = Flag bool | ScrollEvent | NavigationEvent

record 'a ListComponent =
  type :: ListComponentsTypes
  data :: "'a list option"
  source :: "'a source"
  start :: int
  limit :: int
  loadMoreData :: bool
  page :: int
  pages :: "jsnum option"
  refreshing :: bool
  items :: "'a list option"
  searchValue :: "string option"
  paginator :: "'a Paginator option"
  lastPage :: int
  model :: bool
  repository :: bool
  mapper :: "('a \<Rightarrow> thrown + 'a) option"
  componentName :: string
  skeletonData :: nat
  effects :: "'a list_call effect list"

text \<open>
  The collaborators of the list component that live outside this repository: whether
  \<^verbatim>\<open>Model.get\<close> finds the constructor of the bound model, what
  \<^verbatim>\<open>repo.select().orderBy(...).paginate(limit)\<close> yields for a limit, what
  \<^verbatim>\<open>repo.select().where(condition).execute()\<close> yields for the condition built from a
  search value, and the test
  \<^verbatim>\<open>Object.values(item).some(v => v.toString().toLowerCase().includes(search.toLowerCase()))\<close>,
  which throws when it meets a value without \<^verbatim>\<open>toString\<close>; the error object that
  \<^verbatim>\<open>new InternalError(text)\<close> of the decorators library builds, and the string that
  \<^verbatim>\<open>${this.model}\<close> gives for the bound model.
\<close>

record 'a ListEnv =
  modelRegistered :: bool
  paginate :: "int \<Rightarrow> thrown + 'a Paginator"
  execute :: "string \<Rightarrow> thrown + 'a list"
  itemMatches :: "'a \<Rightarrow> string \<Rightarrow> thrown + bool"
  internalError :: "string \<Rightarrow> thrown"
  modelString :: string

text \<open>\<^verbatim>\<open>x?.length\<close> as a condition, and \<^verbatim>\<open>x || []\<close>.\<close>

definition has_length :: "'b list option \<Rightarrow> bool" where
  "has_length x = (case x of None \<Rightarrow> False | Some xs \<Rightarrow> xs \<noteq> [])"

definition or_empty :: "'b list option \<Rightarrow> 'b list" where
  "or_empty x = (case x of None \<Rightarrow> [] | Some xs \<Rightarrow> xs)"

text \<open>
  \<^verbatim>\<open>Array.prototype.slice(begin, end)\<close> for integer arguments: a negative index counts
  from the end, both are clipped to the array, and an empty range gives the empty array.
\<close>

definition js_slice :: "'b list \<Rightarrow> int \<Rightarrow> int \<Rightarrow> 'b list" where
  "js_slice xs b e =
     (let n = int (length xs);
          k = (if b < 0 then max (n + b) 0 else min b n);
          f = (if e < 0 then max (n + e) 0 else min e n)
      in take (nat (f - k)) (drop (nat k) xs))"

text \<open>\<^verbatim>\<open>map\<close> and \<^verbatim>\<open>filter\<close> with a callback that can throw: the first exception wins.\<close>

fun map_throw :: "('b \<Rightarrow> thrown + 'c) \<Rightarrow> 'b list \<Rightarrow> thrown + 'c list" where
  "map_throw f [] = Inr []"
| "map_throw f (x # xs) =
     (case f x of
        Inl e \<Rightarrow> Inl e
      | Inr y \<Rightarrow> (case map_throw f xs of Inl e \<Rightarrow> Inl e | Inr ys \<Rightarrow> Inr (y # ys)))"

fun filter_throw :: "('b \<Rightarrow> thrown + bool) \<Rightarrow> 'b list \<Rightarrow> thrown + 'b list" where
  "filter_throw f [] = Inr []"
| "filter_throw f (x # xs) =
     (case f x of
        Inl e \<Rightarrow> Inl e
      | Inr keep \<Rightarrow>
          (case filter_throw f xs of
             Inl e \<Rightarrow> Inl e
           | Inr ys \<Rightarrow> Inr (if keep then x # ys else ys)))"

text \<open>\<^verbatim>\<open>ListComponent.getMoreData\<close>\<close>

definition getMoreData :: "int \<Rightarrow> 'a ListComponent \<Rightarrow> 'a ListComponent" where
  "getMoreData len s =
     (if len \<le> limit s then s\<lparr>loadMoreData := False\<rparr>
      else if limit s = 0 then s\<lparr>pages := Some Infinity\<rparr>
      else
        let p = len div limit s;
            p' = (if p * limit s < len then p + 1 else p);
            s' = s\<lparr>pages := Some (Fin p')\<rparr>
        in if p' = 1 then s'\<lparr>loadMoreData := False\<rparr> else s')"

text \<open>
  \<^verbatim>\<open>ListComponent.mapResults\<close>. The mapper is given by the function that
  \<^verbatim>\<open>itemMapper\<close> computes on one item once \<^verbatim>\<open>uid\<close> and the common properties are
  added; it can throw.
\<close>

definition mapResults :: "('a \<Rightarrow> thrown + 'a) \<Rightarrow> 'a list \<Rightarrow> thrown + 'a list" where
  "mapResults f d = (if d = [] then Inr [] else map_throw f d)"

text \<open>
  The value that \<^verbatim>\<open>parseResult\<close> returns for the rows it has: the rows mapped when the
  mapper has properties, the rows themselves when it has none.
\<close>

definition mapped :: "'a ListComponent \<Rightarrow> 'a list \<Rightarrow> thrown + 'a list" where
  "mapped s rows = (case mapper s of None \<Rightarrow> Inr rows | Some f \<Rightarrow> mapResults f rows)"

text \<open>
  \<^verbatim>\<open>ListComponent.parseResult\<close>: the argument is an array of rows or a paginator.
  The component is returned also when the method throws, as it is left.
\<close>

datatype 'a query_result = Rows "'a list" | Pager "'a Paginator"

definition parseResult ::
  "'a query_result \<Rightarrow> 'a ListComponent \<Rightarrow> (thrown + 'a list) \<times> 'a ListComponent" where
  "parseResult result s =
     (case (case result of
              Pager p \<Rightarrow>
                (let s1 = s\<lparr>paginator := Some p\<rparr>
                 in case p (page s1) of
                      Inl e \<Rightarrow> (Inl e, s1)
                    | Inr rows \<Rightarrow> (Inr rows, getMoreData 100 s1))
            | Rows rows \<Rightarrow> (Inr rows, getMoreData (int (length rows)) s)) of
        (Inl e, s2) \<Rightarrow> (Inl e, s2)
      | (Inr rows, s2) \<Rightarrow> (mapped s2 rows, s2))"

text \<open>\<^verbatim>\<open>ListComponent.parseSearchResults\<close>\<close>

definition parseSearchResults :: "'a ListEnv \<Rightarrow> 'a list \<Rightarrow> string \<Rightarrow> thrown + 'a list" where
  "parseSearchResults env results search = filter_throw (\<lambda>item. itemMatches env item search) results"

text \<open>
  The request of \<^verbatim>\<open>getFromRequest\<close>: \<^verbatim>\<open>[]\<close> unless the source is a function, then
  what the call resolves to; a result that is not an array is replaced by
  \<^verbatim>\<open>request?.response?.data || request?.results || []\<close>.
\<close>

definition source_falsy :: "'a source \<Rightarrow> bool" where
  "source_falsy src = (src = NoSource \<or> src = SourceString [])"

definition normalise :: "'a response \<Rightarrow> 'a list" where
  "normalise r =
     (case r of
        RArray xs \<Rightarrow> xs
      | RObject (Some xs) _ \<Rightarrow> xs
      | RObject None (Some ys) \<Rightarrow> ys
      | RObject None None \<Rightarrow> [])"

definition request_of :: "'a source \<Rightarrow> thrown + 'a list" where
  "request_of src =
     (case src of
        SourceFunction (Inl e) \<Rightarrow> Inl e
      | SourceFunction (Inr r) \<Rightarrow> Inr (normalise r)
      | _ \<Rightarrow> Inr [])"

text \<open>The last statements of \<^verbatim>\<open>getFromRequest\<close>, reached on every path but the early return.\<close>

definition request_tail :: "'a ListComponent \<Rightarrow> (thrown + 'a list) \<times> 'a ListComponent" where
  "request_tail s =
     (let s' = (if loadMoreData s \<and> type s = PAGINATED
                then getMoreData (int (length (or_empty (data s)))) s else s)
      in (Inr (or_empty (data s')), s'))"

text \<open>\<^verbatim>\<open>ListComponent.getFromRequest\<close>\<close>

definition getFromRequest ::
  "'a ListEnv \<Rightarrow> bool \<Rightarrow> int \<Rightarrow> int \<Rightarrow> 'a ListComponent \<Rightarrow> (thrown + 'a list) \<times> 'a ListComponent" where
  "getFromRequest env force start' limit' s =
     (if \<not> has_length (data s) \<or> force \<or> has_length (searchValue s) then
        if \<not> has_length (searchValue s) then
          if source_falsy (source s) \<and> \<not> has_length (data s) then
            (Inr [], s\<lparr>effects := effects s @
                       [ConsoleWarn (LStr ''No data and source passed to infinite list'')]\<rparr>)
          else
            (case request_of (source s) of
               Inl e \<Rightarrow> (Inl e, s)
             | Inr request \<Rightarrow>
                 (case parseResult (Rows request) s of
                    (Inl e, s1) \<Rightarrow> (Inl e, s1)
                  | (Inr parsed, s1) \<Rightarrow>
                      (let s2 = s1\<lparr>data := Some parsed\<rparr>;
                           s3 = s2\<lparr>items := Some
                                  (if type s2 = INFINITE
                                   then or_empty (items s2) @ js_slice parsed start' limit'
                                   else js_slice request start' limit')\<rparr>
                       in request_tail s3)))
        else
          (case data s of
             None \<Rightarrow> (Inl (TypeError ''Cannot read properties of undefined (reading 'filter')''), s)
           | Some d \<Rightarrow>
               (case parseSearchResults env d (or_empty (searchValue s)) of
                  Inl e \<Rightarrow> (Inl e, s)
                | Inr found \<Rightarrow> request_tail (s\<lparr>data := Some found, items := Some found\<rparr>)))
      else request_tail s)"

text \<open>
  The getter \<^verbatim>\<open>ListComponent.repository\<close>: it throws when the model was never
  registered.
\<close>

definition repository_get :: "'a ListEnv \<Rightarrow> 'a ListComponent \<Rightarrow> (thrown + unit) \<times> 'a ListComponent" where
  "repository_get env s =
     (if \<not> repository s then
        if \<not> modelRegistered env
        then (Inl (internalError env ''Cannot find model. was it registered with @model?''), s)
        else (Inr (), s\<lparr>repository := True, model := True\<rparr>)
      else (Inr (), s))"

text \<open>
  The body of the \<^verbatim>\<open>try\<close> block of \<^verbatim>\<open>getFromModel\<close>; \<open>dat\<close> is the local
  variable \<^verbatim>\<open>data\<close>, and the result on success is its new value.
\<close>

definition model_try ::
  "'a ListEnv \<Rightarrow> 'a list \<Rightarrow> 'a ListComponent \<Rightarrow> (thrown + 'a list) \<times> 'a ListComponent" where
  "model_try env dat s =
     (if \<not> has_length (searchValue s) then
        (let s1 = s\<lparr>data := Some []\<rparr>
         in case (case paginator s1 of
                    Some p \<Rightarrow> (Inr p, s1)
                  | None \<Rightarrow>
                      (case paginate env (limit s1) of
                         Inl e \<Rightarrow> (Inl e, s1)
                       | Inr p \<Rightarrow> (Inr p, s1\<lparr>paginator := Some p\<rparr>))) of
              (Inl e, s2) \<Rightarrow> (Inl e, s2)
            | (Inr p, s2) \<Rightarrow>
                (case parseResult (Pager p) s2 of
                   (Inl e, s3) \<Rightarrow> (Inl e, s3)
                 | (Inr request, s3) \<Rightarrow>
                     (Inr (if type s3 = INFINITE then dat @ request else request), s3)))
      else
        (case execute env (or_empty (searchValue s)) of
           Inl e \<Rightarrow> (Inl e, s)
         | Inr rows \<Rightarrow>
             (case parseResult (Rows rows) s of
                (Inl e, s1) \<Rightarrow> (Inl e, s1)
              | (Inr request, s1) \<Rightarrow>
                  (Inr (if type s1 = INFINITE then [] @ request else request), s1))))"

text \<open>The message that the \<^verbatim>\<open>catch\<close> of \<^verbatim>\<open>getFromModel\<close> logs for an error without one.\<close>

definition unable_to_find :: "'a ListEnv \<Rightarrow> string" where
  "unable_to_find env =
     ''Unable to find '' @ modelString env @ '' on registry. Return empty array from component''"

text \<open>\<^verbatim>\<open>ListComponent.getFromModel\<close>\<close>

definition getFromModel ::
  "'a ListEnv \<Rightarrow> bool \<Rightarrow> int \<Rightarrow> int \<Rightarrow> 'a ListComponent \<Rightarrow> (thrown + 'a list) \<times> 'a ListComponent" where
  "getFromModel env force start' limit' s =
     (let dat0 = or_empty (data s)
      in case repository_get env s of
           (Inl e, s0) \<Rightarrow> (Inl e, s0)
         | (Inr u, s0) \<Rightarrow>
             (let (dat, s1) =
                    (if \<not> has_length (data s0) \<or> force \<or> has_length (searchValue s0) then
                       (case model_try env dat0 s0 of
                          (Inr d, s') \<Rightarrow> (d, s')
                        | (Inl e, s') \<Rightarrow>
                            (dat0, s'\<lparr>effects := effects s' @
                               [ConsoleError (LStr (case message e of Some m \<Rightarrow> m
                                                    | None \<Rightarrow> unable_to_find env))]\<rparr>))
                     else (dat0, s0));
                  s2 = (if dat \<noteq> [] then
                          if has_length (searchValue s1) then
                            (let s' = s1\<lparr>items := Some dat\<rparr>
                             in if int (length dat) \<le> limit s' then s'\<lparr>loadMoreData := False\<rparr> else s')
                          else s1\<lparr>items := Some dat\<rparr>
                        else s1);
                  s3 = (if type s2 = PAGINATED then getMoreData 100 s2 else s2)
              in (Inr dat, s3)))"

text \<open>\<^verbatim>\<open>ListComponent.refreshEventEmit\<close>\<close>

definition refreshEventEmit :: "'a list option \<Rightarrow> 'a ListComponent \<Rightarrow> 'a ListComponent" where
  "refreshEventEmit dat s =
     (let d = (case dat of None \<Rightarrow> items s | Some xs \<Rightarrow> Some xs);
          n = (case d of None \<Rightarrow> 2 | Some xs \<Rightarrow> (if xs = [] then 2 else length xs))
      in s\<lparr>skeletonData := n,
            effects := effects s @
              [Call (RefreshEmit (BaseCustomEvent REFRESH_EVENT (or_empty d) (componentName s)))]\<rparr>)"

text \<open>
  \<^verbatim>\<open>ListComponent.refresh\<close>. The event is truthy unless it is the flag
  \<^verbatim>\<open>false\<close>; a scroll event has a target with \<^verbatim>\<open>complete()\<close>, the window event
  of the back navigation has the window as its target, which has none. The callbacks
  handed to \<^verbatim>\<open>setTimeout\<close> run after the method has returned and are not part
  of it.
\<close>

definition truthy :: "refresh_event \<Rightarrow> bool" where
  "truthy ev = (ev \<noteq> Flag False)"

text \<open>The local variables \<^verbatim>\<open>start\<close> and \<^verbatim>\<open>limit\<close> of \<^verbatim>\<open>refresh\<close>.\<close>

definition refresh_start :: "'a ListComponent \<Rightarrow> int" where
  "refresh_start s = (if page s > 1 then (page s - 1) * limit s else start s)"

definition refresh_limit :: "'a ListComponent \<Rightarrow> int" where
  "refresh_limit s = page s * (if limit s > 12 then 12 else limit s)"

text \<open>The last statement of \<^verbatim>\<open>refresh\<close>, after the refresh event is emitted.\<close>

definition refresh_finish ::
  "refresh_event \<Rightarrow> 'a ListComponent \<Rightarrow> (thrown + unit) \<times> 'a ListComponent" where
  "refresh_finish ev s =
     (if type s = INFINITE then
        if pages s = Some (Fin (page s)) then
          (case ev of
             Flag b \<Rightarrow> (Inr (), s\<lparr>loadMoreData := False\<rparr>)
           | ScrollEvent \<Rightarrow>
               (Inr (), s\<lparr>effects := effects s @ [Call TargetComplete], loadMoreData := False\<rparr>)
           | NavigationEvent \<Rightarrow>
               (Inl (TypeError ''event.target.complete is not a function''), s))
        else (Inr (), s\<lparr>page := page s + 1, refreshing := False\<rparr>)
      else (Inr (), s))"

definition refresh ::
  "'a ListEnv \<Rightarrow> refresh_event \<Rightarrow> 'a ListComponent \<Rightarrow> (thrown + unit) \<times> 'a ListComponent" where
  "refresh env ev s =
     (let s1 = s\<lparr>refreshing := True\<rparr>
      in case (if \<not> model s1
               then getFromRequest env (truthy ev) (refresh_start s1) (refresh_limit s1) s1
               else getFromModel env (truthy ev) (refresh_start s1) (refresh_limit s1) s1) of
           (Inl e, s2) \<Rightarrow> (Inl e, s2)
         | (Inr d, s2) \<Rightarrow> refresh_finish ev (refreshEventEmit None (s2\<lparr>data := Some d\<rparr>)))"

section \<open>The pagination component\<close>

text \<open>One entry of the \<^verbatim>\<open>pages\<close> array: a page number or \<^verbatim>\<open>null\<close>, and its label.\<close>

datatype page_item = PageItem (item_index: "int option") (item_text: string)

datatype direction = Next | Previous

record PaginationComponent =
  pg_data :: int
  pg_current :: int
  pg_pages :: "page_item list option"
  pg_last :: "int option"
  pg_componentName :: string
  pg_effects :: "(direction \<times> int) BaseCustomEvent effect list"

text \<open>\<^verbatim>\<open>Number.prototype.toString\<close> on an integer.\<close>

fun digits :: "nat \<Rightarrow> string" where
  "digits n = (if n < 10 then [char_of (48 + n)] else digits (n div 10) @ [char_of (48 + n mod 10)])"

declare digits.simps [simp del]

definition toString :: "int \<Rightarrow> string" where
  "toString i = (if i < 0 then CHR ''-'' # digits (nat (- i)) else digits (nat i))"

text \<open>The local function \<^verbatim>\<open>getPage\<close> of \<^verbatim>\<open>getPages\<close>, on the array it closes over.\<close>

definition getPage :: "int option \<Rightarrow> string \<Rightarrow> page_item list \<Rightarrow> page_item list" where
  "getPage index txt ps =
     (if \<exists>item \<in> set ps. item_index item = index then ps
      else ps @ [PageItem index
                  (case index of
                     None \<Rightarrow> txt
                   | Some i \<Rightarrow> (if i \<ge> 10 then toString i else ''0'' @ toString i @ txt))])"

text \<open>The body of the loop of \<^verbatim>\<open>getPages\<close> for one \<^verbatim>\<open>i\<close>.\<close>

definition getPages_step :: "int \<Rightarrow> page_item list \<Rightarrow> int \<Rightarrow> page_item list" where
  "getPages_step tot ps i =
     (if tot \<le> 5 then getPage (Some i) [] ps
      else if i = 1 \<and> tot \<noteq> 1 then getPage (Some i) (if tot \<noteq> tot then '' ... '' else []) ps
      else if i \<le> tot + 1 \<and> i > tot - 1 then getPage (Some i) [] ps
      else if i + 1 \<ge> tot then
        getPage (Some i) [] (if i + 1 = tot \<and> i \<noteq> tot then getPage None ''...'' ps else ps)
      else ps)"

text \<open>
  \<^verbatim>\<open>PaginationComponent.getPages\<close>; its second parameter is never read after it is
  defaulted.
\<close>

definition getPages :: "int \<Rightarrow> int \<Rightarrow> page_item list" where
  "getPages tot cur = foldl (getPages_step tot) [] [1..tot]"

text \<open>\<^verbatim>\<open>PaginationComponent.ngOnInit\<close>\<close>

definition ngOnInit :: "PaginationComponent \<Rightarrow> PaginationComponent" where
  "ngOnInit c = c\<lparr>pg_pages := Some (getPages (pg_data c) (pg_current c)), pg_last := Some (pg_data c)\<rparr>"

text \<open>\<^verbatim>\<open>PaginationComponent.handleClick\<close>\<close>

definition handleClick :: "direction \<Rightarrow> int option \<Rightarrow> PaginationComponent \<Rightarrow> PaginationComponent" where
  "handleClick dir pg c =
     (let c1 = (case pg of None \<Rightarrow> c | Some p \<Rightarrow> (if p \<noteq> 0 then c\<lparr>pg_current := p\<rparr> else c))
      in c1\<lparr>pg_effects := pg_effects c1 @
             [Call (BaseCustomEvent CLICK_EVENT (dir, pg_current c1) (pg_componentName c1))]\<rparr>)"

text \<open>
  \<^verbatim>\<open>PaginationComponent.next\<close>. \<^verbatim>\<open>Object.keys(this.pages)\<close> throws while
  \<^verbatim>\<open>pages\<close> is undefined, that is before \<^verbatim>\<open>ngOnInit\<close>.
\<close>

definition next_page :: "PaginationComponent \<Rightarrow> thrown + PaginationComponent" where
  "next_page c =
     (case pg_pages c of
        None \<Rightarrow> Inl (TypeError ''Cannot convert undefined or null to object'')
      | Some ps \<Rightarrow>
          (let pg = pg_current c + 1
           in if pg \<le> int (length ps) then Inr (handleClick Next None (c\<lparr>pg_current := pg\<rparr>))
              else Inr c))"

text \<open>\<^verbatim>\<open>PaginationComponent.previous\<close>\<close>

definition previous :: "PaginationComponent \<Rightarrow> PaginationComponent" where
  "previous c =
     (let pg = pg_current c - 1
      in if pg > 0 then handleClick Previous None (c\<lparr>pg_current := pg\<rparr>) else c)"

text \<open>\<^verbatim>\<open>PaginationComponent.navigate\<close>\<close>

definition navigate :: "int option \<Rightarrow> PaginationComponent \<Rightarrow> PaginationComponent" where
  "navigate pg c =
     (case pg of
        None \<Rightarrow> c
      | Some p \<Rightarrow>
          (if pg_current c \<noteq> p
           then handleClick (if p > pg_current c then Next else Previous) (Some p) c
           else c))"

section \<open>The model page\<close>

datatype OperationKeys = CREATE | READ | UPDATE | DELETE

text \<open>The string value of an operation key, as it appears in the toast.\<close>

fun operation_string :: "OperationKeys \<Rightarrow> string" where
  "operation_string CREATE = ''create''"
| "operation_string READ = ''read''"
| "operation_string UPDATE = ''update''"
| "operation_string DELETE = ''delete''"

text \<open>
  The local variable \<^verbatim>\<open>uid\<close> of \<^verbatim>\<open>parseData\<close>: undefined, the routed string, or
  the number \<^verbatim>\<open>Number(uid)\<close>. The type \<open>'n\<close> is that of JavaScript numbers.
\<close>

datatype 'n key = KUndefined | KStr string | KNum 'n

text \<open>
  Form data is an object: its properties in order, each with its value, which is a key
  or a value of the form. \<^verbatim>\<open>Object.assign(data, {[k]: v})\<close> is \<open>AList.update k v\<close>:
  it overwrites the property in place or appends it. The model that
  \<^verbatim>\<open>Model.build(data, modelName)\<close> returns is kept as the pair of its arguments.
\<close>

type_synonym ('n, 'v) fields = "(string \<times> ('n key + 'v)) list"

datatype ('n, 'v) Model = Model_build "('n, 'v) fields" string

datatype ('n, 'v) parsed = PModel "('n, 'v) Model" | PKey "'n key"

text \<open>Calls of the model page on the repository.\<close>

datatype ('n, 'v) page_call =
    RepoCreate "('n, 'v) parsed"
  | RepoUpdate "('n, 'v) parsed"
  | RepoDelete "('n, 'v) parsed"
  | RepoRead 'n
  | RepoRefresh string OperationKeys "string option"
  | UnhandledRejection thrown

text \<open>
  The collaborators of the model page: \<^verbatim>\<open>Number\<close>, whether \<^verbatim>\<open>Model.get\<close>
  finds the model, the primary key of the repository and its four operations, and the
  error object that \<^verbatim>\<open>new InternalError(text)\<close> of the decorators library builds. A
  write yields an exception or the truth value of its result; \<^verbatim>\<open>delete\<close> returns a
  promise, here the exception it is rejected with, if any.
\<close>

record ('n, 'v) PageEnv =
  toNumber :: "string option \<Rightarrow> 'n"
  constructorFound :: bool
  pk :: string
  create :: "('n, 'v) parsed \<Rightarrow> thrown + bool"
  update :: "('n, 'v) parsed \<Rightarrow> thrown + bool"
  delete :: "('n, 'v) parsed \<Rightarrow> thrown option"
  read :: "'n \<Rightarrow> thrown + ('n, 'v) Model"
  page_internalError :: "string \<Rightarrow> thrown"

record ('n, 'v) ModelPage =
  operation :: OperationKeys
  modelName :: string
  uid :: "string option"
  mp_model :: "('n, 'v) Model option"
  mp_repository :: bool
  mp_effects :: "('n, 'v) page_call effect list"

text \<open>How an asynchronous method ends: it resolves, it rejects, or its promise is never settled.\<close>

datatype 'r outcome = Resolves 'r | Rejects thrown | Pending

text \<open>A string or undefined as a condition.\<close>

definition uid_truthy :: "string option \<Rightarrow> bool" where
  "uid_truthy u = (case u of None \<Rightarrow> False | Some str \<Rightarrow> str \<noteq> [])"

text \<open>The getter \<^verbatim>\<open>ModelPage.repository\<close>\<close>

definition page_repository ::
  "('n, 'v) PageEnv \<Rightarrow> ('n, 'v) ModelPage \<Rightarrow> (thrown + unit) \<times> ('n, 'v) ModelPage" where
  "page_repository env s =
     (if \<not> mp_repository s then
        if \<not> constructorFound env
        then (Inl (page_internalError env ''Cannot find model. was it registered with @model?''), s)
        else (Inr (), s\<lparr>mp_repository := True, mp_model := Some (Model_build [] (modelName s))\<rparr>)
      else (Inr (), s))"

text \<open>
  \<^verbatim>\<open>ModelPage.handleGet\<close>. A rejection of \<^verbatim>\<open>read\<close> happens inside the asynchronous
  executor of the promise, which nothing awaits: the promise that \<^verbatim>\<open>handleGet\<close>
  returned stays pending.
\<close>

definition handleGet ::
  "('n, 'v) PageEnv \<Rightarrow> string option \<Rightarrow> ('n, 'v) ModelPage \<Rightarrow>
     ('n, 'v) Model outcome \<times> ('n, 'v) ModelPage" where
  "handleGet env u s =
     (if \<not> uid_truthy u then
        (Rejects Undefined,
         s\<lparr>mp_effects := mp_effects s @
              [ConsoleWarn (LStr ''No key passed to model page read operation, backing to last page''),
               BackToLastPage]\<rparr>)
      else
        (let s1 = s\<lparr>mp_effects := mp_effects s @ [Call (RepoRead (toNumber env u))]\<rparr>
         in case read env (toNumber env u) of
              Inr m \<Rightarrow> (Resolves m, s1)
            | Inl e \<Rightarrow> (Pending, s1\<lparr>mp_effects := mp_effects s1 @ [Call (UnhandledRejection e)]\<rparr>)))"

text \<open>\<^verbatim>\<open>ModelPage.refresh\<close>; its parameter is not used, the field \<^verbatim>\<open>uid\<close> is.\<close>

definition page_refresh ::
  "('n, 'v) PageEnv \<Rightarrow> ('n, 'v) ModelPage \<Rightarrow> unit outcome \<times> ('n, 'v) ModelPage" where
  "page_refresh env s =
     (case page_repository env s of
        (Inl e, s1) \<Rightarrow>
          (Resolves (), s1\<lparr>mp_effects := mp_effects s1 @ [ConsoleError (message_or_error e)]\<rparr>)
      | (Inr u, s1) \<Rightarrow>
          (if operation s1 = READ \<or> operation s1 = UPDATE \<or> operation s1 = DELETE then
             (case handleGet env (uid s1) s1 of
                (Resolves m, s2) \<Rightarrow> (Resolves (), s2\<lparr>mp_model := Some m\<rparr>)
              | (Rejects e, s2) \<Rightarrow>
                  (Resolves (), s2\<lparr>mp_effects := mp_effects s2 @ [ConsoleError (message_or_error e)]\<rparr>)
              | (Pending, s2) \<Rightarrow> (Pending, s2))
           else (Resolves (), s1)))"

text \<open>
  \<^verbatim>\<open>ModelPage.parseData\<close>. Reading \<^verbatim>\<open>repo.pk\<close> throws while the repository is
  undefined.
\<close>

definition parseData ::
  "('n, 'v) PageEnv \<Rightarrow> ('n, 'v) fields \<Rightarrow> ('n, 'v) ModelPage \<Rightarrow> thrown + ('n, 'v) parsed" where
  "parseData env dat s =
     (if \<not> mp_repository s
      then Inl (TypeError ''Cannot read properties of undefined (reading 'pk')'')
      else
        (let u = (if pk env = ''id'' then KNum (toNumber env (uid s))
                  else (case uid s of None \<Rightarrow> KUndefined | Some str \<Rightarrow> KStr str))
         in if operation s \<noteq> DELETE
            then Inr (PModel (Model_build
                       (if uid_truthy (uid s) then AList.update (pk env) (Inl u) dat else dat) (modelName s)))
            else Inr (PKey u)))"

text \<open>
  The statements of \<^verbatim>\<open>handleSubmit\<close> inside \<^verbatim>\<open>try\<close>. The promise of
  \<^verbatim>\<open>delete\<close> is not awaited: it is a truthy result whatever becomes of it, and its
  rejection is handled by nobody.
\<close>

definition submit_try ::
  "('n, 'v) PageEnv \<Rightarrow> ('n, 'v) fields \<Rightarrow> ('n, 'v) ModelPage \<Rightarrow> (thrown + unit) \<times> ('n, 'v) ModelPage" where
  "submit_try env dat s =
     (case parseData env dat s of
        Inl e \<Rightarrow> (Inl e, s)
      | Inr d \<Rightarrow>
          (case (if operation s = CREATE then
                   (create env d, s\<lparr>mp_effects := mp_effects s @ [Call (RepoCreate d)]\<rparr>)
                 else if operation s = UPDATE then
                   (update env d, s\<lparr>mp_effects := mp_effects s @ [Call (RepoUpdate d)]\<rparr>)
                 else
                   (Inr True,
                    s\<lparr>mp_effects := mp_effects s @ [Call (RepoDelete d)] @
                         (case delete env d of None \<Rightarrow> [] | Some e \<Rightarrow> [Call (UnhandledRejection e)])\<rparr>)) of
             (Inl e, s1) \<Rightarrow> (Inl e, s1)
           | (Inr result, s1) \<Rightarrow>
               (if result then
                  (Inr (), s1\<lparr>mp_effects := mp_effects s1 @
                     [Call (RepoRefresh (modelName s1) (operation s1) (uid s1)),
                      BackToLastPage,
                      Toast (operation_string (operation s1) @ '' Item successfully'')]\<rparr>)
                else (Inr (), s1))))"

text \<open>\<^verbatim>\<open>ModelPage.handleSubmit\<close>\<close>

definition handleSubmit ::
  "('n, 'v) PageEnv \<Rightarrow> ('n, 'v) fields \<Rightarrow> ('n, 'v) ModelPage \<Rightarrow> (thrown + unit) \<times> ('n, 'v) ModelPage" where
  "handleSubmit env dat s =
     (case submit_try env dat s of
        (Inr u, s1) \<Rightarrow> (Inr (), s1)
      | (Inl e, s1) \<Rightarrow>
          (Inl (new_Error e),
           s1\<lparr>mp_effects := mp_effects s1 @ [ConsoleError (message_or_error e)]\<rparr>))"

section \<open>The form component\<close>

text \<open>What \<^verbatim>\<open>CrudFormComponent.submit\<close> does to the DOM event and to its output.\<close>

datatype 'd form_call =
    PreventDefault
  | StopImmediatePropagation
  | StopPropagation
  | SubmitEmit "'d BaseCustomEvent"

record ('fg, 'd) CrudFormComponent =
  formGroup :: "'fg option"
  cf_effects :: "'d form_call list"

text \<open>
  \<^verbatim>\<open>CrudFormComponent.submit\<close>. \<^verbatim>\<open>NgxFormService.validateFields\<close> and
  \<^verbatim>\<open>NgxFormService.getFormData\<close> are not among the sources and are parameters:
  \<open>validateFields\<close> tells whether every field of the form group passes validation,
  \<open>getFormData\<close> gives the data of the form group. The method returns
  \<^verbatim>\<open>false\<close> or nothing.
\<close>

definition submit ::
  "('fg option \<Rightarrow> bool) \<Rightarrow> ('fg option \<Rightarrow> 'd) \<Rightarrow> ('fg, 'd) CrudFormComponent \<Rightarrow>
     bool option \<times> ('fg, 'd) CrudFormComponent" where
  "submit validateFields getFormData c =
     (let c1 = c\<lparr>cf_effects := cf_effects c @ [PreventDefault, StopImmediatePropagation, StopPropagation]\<rparr>
      in if \<not> validateFields (formGroup c1) then (Some False, c1)
         else
           (let dat = getFormData (formGroup c1)
            in (None, c1\<lparr>cf_effects := cf_effects c1 @
                        [SubmitEmit (BaseCustomEvent SUBMIT_EVENT dat ''FormReactiveComponent'')]\<rparr>)))"

section \<open>The toast component\<close>

datatype option_value = ONum int | OStr string | OBool bool

type_synonym ToastOptions = "string \<rightharpoonup> option_value"

text \<open>Calls on the toast controller and on the toast element.\<close>

datatype toast_call = Dismiss | Create ToastOptions | Present nat

text \<open>
  The variables of the module: the object \<^verbatim>\<open>DefaulOptions\<close>, the variable
  \<^verbatim>\<open>instance\<close> (here \<open>the_instance\<close>; a component is known by the number it got when
  it was constructed),
  whether \<^verbatim>\<open>component\<close> holds a toast element, and the number of components
  constructed so far. Every component's \<^verbatim>\<open>options\<close> field is the object
  \<^verbatim>\<open>DefaulOptions\<close> itself, since \<^verbatim>\<open>Object.assign\<close> returns its first argument.
\<close>

record toast_module =
  DefaulOptions :: ToastOptions
  the_instance :: "nat option"
  component :: bool
  constructed :: nat
  toast_calls :: "toast_call list"

definition initial_module :: toast_module where
  "initial_module =
     \<lparr>DefaulOptions = [''duration'' \<mapsto> ONum 3000, ''position'' \<mapsto> OStr ''top'', ''animated'' \<mapsto> OBool True],
      the_instance = None, component = False, constructed = 0, toast_calls = []\<rparr>"

text \<open>The constructor of \<^verbatim>\<open>NgxToastComponent\<close>\<close>

definition new_NgxToastComponent :: "ToastOptions \<Rightarrow> toast_module \<Rightarrow> nat \<times> toast_module" where
  "new_NgxToastComponent opts g =
     (constructed g, g\<lparr>DefaulOptions := DefaulOptions g ++ opts, constructed := Suc (constructed g)\<rparr>)"

text \<open>\<^verbatim>\<open>getNgxToastComponent\<close>\<close>

definition getNgxToastComponent :: "ToastOptions \<Rightarrow> toast_module \<Rightarrow> nat \<times> toast_module" where
  "getNgxToastComponent opts g =
     (case the_instance g of
        None \<Rightarrow> (let (obj, g1) = new_NgxToastComponent opts g in (obj, g1\<lparr>the_instance := Some obj\<rparr>))
      | Some obj \<Rightarrow> (obj, g))"

text \<open>\<^verbatim>\<open>NgxToastComponent.show\<close>; the element is presented by a timer, after the delay given.\<close>

definition "show" :: "ToastOptions \<Rightarrow> toast_module \<Rightarrow> toast_module" where
  "show opts g =
     (let opts' = [''duration'' \<mapsto> ONum 5000] ++ opts;
          g1 = (if component g then g\<lparr>toast_calls := toast_calls g @ [Dismiss]\<rparr> else g);
          timeout = (if component g then 200 else 0)
      in g1\<lparr>component := True, toast_calls := toast_calls g1 @ [Create opts', Present timeout]\<rparr>)"

text \<open>
  The four notification methods. Each writes the message and the colour into the shared
  options object; \<^verbatim>\<open>error\<close> and \<^verbatim>\<open>warn\<close> then wait for the dismissal and clear
  \<^verbatim>\<open>component\<close>.
\<close>

definition notify :: "string \<Rightarrow> string \<Rightarrow> toast_module \<Rightarrow> toast_module" where
  "notify msg colour g =
     (let merged = DefaulOptions g ++ [''message'' \<mapsto> OStr msg, ''color'' \<mapsto> OStr colour]
      in show merged (g\<lparr>DefaulOptions := merged\<rparr>))"

definition inform :: "string \<Rightarrow> toast_module \<Rightarrow> toast_module" where
  "inform msg g = notify msg [] g"

definition success :: "string \<Rightarrow> toast_module \<Rightarrow> toast_module" where
  "success msg g = notify msg ''success'' g"

definition error :: "string \<Rightarrow> toast_module \<Rightarrow> toast_module" where
  "error msg g = (notify msg ''danger'' g)\<lparr>component := False\<rparr>"

definition warn :: "string \<Rightarrow> toast_module \<Rightarrow> toast_module" where
  "warn msg g = (notify msg ''warning'' g)\<lparr>component := False\<rparr>"

text \<open>
  A client of the module: it asks for the component, with options, or shows a
  notification through the component it holds. \<open>run\<close> performs a list of such steps
  and collects what the calls of \<^verbatim>\<open>getNgxToastComponent\<close> returned.
\<close>

datatype toast_step =
    GetComponent ToastOptions
  | InformStep string
  | SuccessStep string
  | ErrorStep string
  | WarnStep string

fun run :: "toast_step list \<Rightarrow> toast_module \<Rightarrow> nat list \<times> toast_module" where
  "run [] g = ([], g)"
| "run (GetComponent opts # steps) g =
     (let (obj, g1) = getNgxToastComponent opts g; (objs, g2) = run steps g1 in (obj # objs, g2))"
| "run (InformStep msg # steps) g = run steps (inform msg g)"
| "run (SuccessStep msg # steps) g = run steps (success msg g)"
| "run (ErrorStep msg # steps) g = run steps (error msg g)"
| "run (WarnStep msg # steps) g = run steps (warn msg g)"

text \<open>The same steps with the options of every request replaced by \<open>f\<close> of them.\<close>

fun with_options :: "(ToastOptions \<Rightarrow> ToastOptions) \<Rightarrow> toast_step \<Rightarrow> toast_step" where
  "with_options f (GetComponent opts) = GetComponent (f opts)"
| "with_options f step = step"

section \<open>Example configurations\<close>

text \<open>
  A list component as its class initialises it, in paginated mode, fed by a function
  that returns the numbers 0 to 24.
\<close>

definition example_list :: "nat ListComponent" where
  "example_list =
     \<lparr>type = PAGINATED, data = None, source = SourceFunction (Inr (RArray [0..<25])),
      start = 0, limit = 10, loadMoreData = True, page = 1, pages = None, refreshing = False,
      items = None, searchValue = None, paginator = None, lastPage = 1, model = False,
      repository = False, mapper = None, componentName = ''ListComponent'', skeletonData = 2,
      effects = []\<rparr>"

text \<open>A pagination component over 12 pages, before \<^verbatim>\<open>ngOnInit\<close>, at a given page.\<close>

definition example_pagination :: "int \<Rightarrow> PaginationComponent" where
  "example_pagination cur =
     \<lparr>pg_data = 12, pg_current = cur, pg_pages = None, pg_last = None,
      pg_componentName = ''PaginationComponent'', pg_effects = []\<rparr>"

text \<open>The label \<^verbatim>\<open>getPage\<close> gives a page number when no text is appended.\<close>

definition page_label :: "int \<Rightarrow> string" where
  "page_label i = (if i \<ge> 10 then toString i else ''0'' @ toString i)"

text \<open>The submit events among the calls of a form component, oldest first.\<close>

definition submit_events :: "'d form_call list \<Rightarrow> 'd BaseCustomEvent list" where
  "submit_events calls = concat (map (\<lambda>c. case c of SubmitEmit ev \<Rightarrow> [ev] | _ \<Rightarrow> []) calls)"

text \<open>
  A form group as a list of named fields with their validity, a validation that asks
  every field, and form data that lists the field names.
\<close>

definition example_validateFields :: "(string \<times> bool) list option \<Rightarrow> bool" where
  "example_validateFields fg = (case fg of None \<Rightarrow> False | Some fs \<Rightarrow> list_all snd fs)"

definition example_getFormData :: "(string \<times> bool) list option \<Rightarrow> string list" where
  "example_getFormData fg = (case fg of None \<Rightarrow> [] | Some fs \<Rightarrow> map fst fs)"

definition example_form :: "(string \<times> bool) list \<Rightarrow> ((string \<times> bool) list, string list) CrudFormComponent" where
  "example_form fs = \<lparr>formGroup = Some fs, cf_effects = []\<rparr>"

text \<open>The write calls on the repository among the effects of a model page, oldest first.\<close>

definition writes :: "('n, 'v) page_call effect list \<Rightarrow> ('n, 'v) page_call list" where
  "writes effs =
     concat (map (\<lambda>e. case e of
                         Call (RepoCreate m) \<Rightarrow> [RepoCreate m]
                       | Call (RepoUpdate m) \<Rightarrow> [RepoUpdate m]
                       | Call (RepoDelete d) \<Rightarrow> [RepoDelete d]
                       | _ \<Rightarrow> []) effs)"

text \<open>
  An environment for the model page: a \<^verbatim>\<open>Number\<close> that reads strings of decimal
  digits and gives \<^verbatim>\<open>NaN\<close>, here \<open>None\<close>, for anything else; a repository with primary
  key \<^verbatim>\<open>id\<close> whose operations all succeed, or all fail with a given exception.
\<close>

definition example_toNumber :: "string option \<Rightarrow> int option" where
  "example_toNumber u =
     (case u of
        None \<Rightarrow> None
      | Some str \<Rightarrow>
          (if list_all (\<lambda>c. 48 \<le> (of_char c :: nat) \<and> (of_char c :: nat) \<le> 57) str
           then Some (foldl (\<lambda>a c. 10 * a + (int (of_char c) - 48)) 0 str)
           else None))"

definition example_page_env :: "thrown option \<Rightarrow> (int option, string) PageEnv" where
  "example_page_env failure =
     \<lparr>toNumber = example_toNumber, constructorFound = True, pk = ''id'',
      create = (\<lambda>m. case failure of None \<Rightarrow> Inr True | Some e \<Rightarrow> Inl e),
      update = (\<lambda>m. case failure of None \<Rightarrow> Inr True | Some e \<Rightarrow> Inl e),
      delete = (\<lambda>d. failure),
      read = (\<lambda>n. case failure of None \<Rightarrow> Inr (Model_build [] ''EmployeeModel'')
                   | Some e \<Rightarrow> Inl e),
      page_internalError = (\<lambda>txt. ErrorObject ''InternalError'' (''[InternalError] '' @ txt))\<rparr>"

text \<open>A model page for the model \<^verbatim>\<open>EmployeeModel\<close>, and form data with one property.\<close>

definition example_page :: "OperationKeys \<Rightarrow> string option \<Rightarrow> bool \<Rightarrow> (int option, string) ModelPage" where
  "example_page op u repo =
     \<lparr>operation = op, modelName = ''EmployeeModel'', uid = u, mp_model = None,
      mp_repository = repo, mp_effects = []\<rparr>"

definition example_data :: "(int option, string) fields" where
  "example_data = [(''name'', Inr ''John Doe'')]"

text \<open>
  Collaborators for the example list: a registered model whose paginator cuts the
  numbers 0 to 24 into pages of the size asked for, a query that finds nothing, a
  search test that accepts every item and an internal error that carries its name in
  its message; and the same with a repository that fails to paginate.
\<close>

definition example_list_env :: "nat ListEnv" where
  "example_list_env =
     \<lparr>modelRegistered = True,
      paginate = (\<lambda>size. Inr (\<lambda>p. Inr (js_slice [0..<25] ((p - 1) * size) (p * size)))),
      execute = (\<lambda>search. Inr []),
      itemMatches = (\<lambda>item search. Inr True),
      internalError = (\<lambda>txt. ErrorObject ''InternalError'' (''[InternalError] '' @ txt)),
      modelString = ''EmployeeModel: {}''\<rparr>"

definition example_failing_env :: "nat ListEnv" where
  "example_failing_env = example_list_env\<lparr>paginate := (\<lambda>size. Inl (Error ''offline''))\<rparr>"

text \<open>
  Variations of the example list: with a limit of 20; in infinite mode at page 2 with
  the first ten items shown; bound to a model and holding three items.
\<close>

definition example_wide_list :: "nat ListComponent" where
  "example_wide_list = example_list\<lparr>limit := 20\<rparr>"

definition example_infinite_list :: "nat ListComponent" where
  "example_infinite_list = example_list\<lparr>type := INFINITE, page := 2, items := Some [0..<10]\<rparr>"

definition example_model_list :: "nat ListComponent" where
  "example_model_list = example_list\<lparr>model := True, data := Some [7, 8, 9]\<rparr>"

text \<open>The refresh events among the effects of a list component, oldest first.\<close>

definition refresh_events :: "'a list_call effect list \<Rightarrow> 'a list BaseCustomEvent list" where
  "refresh_events effs =
     concat (map (\<lambda>e. case e of Call (RefreshEmit ev) \<Rightarrow> [ev] | _ \<Rightarrow> []) effs)"

text \<open>An infinite list that has reached its last page, page 3, and shows all 25 items.\<close>

definition example_last_page_list :: "nat ListComponent" where
  "example_last_page_list =
     example_list\<lparr>type := INFINITE, page := 3, pages := Some (Fin 3), data := Some [0..<25],
                   items := Some [0..<25], loadMoreData := False\<rparr>"



text \<open>An environment for the model page in which the model name was never registered.\<close>

definition example_unregistered_env :: "(int option, string) PageEnv" where
  "example_unregistered_env = (example_page_env None)\<lparr>constructorFound := False\<rparr>"

section \<open>Properties of the list component\<close>

lemma ceiling_as_floor_step:
  fixes len lim :: int
  assumes "0 < lim"
  shows "(if (len div lim) * lim < len then len div lim + 1 else len div lim)
         = \<lceil>real_of_int len / real_of_int lim\<rceil>"
proof -
  have c: "\<lceil>real_of_int len / real_of_int lim\<rceil> = - (- len div lim)"
    by (rule ceiling_divide_eq_div)
  show ?thesis
  proof (cases "lim dvd len")
    case True
    then obtain k where k: "len = lim * k" by (auto simp: dvd_def)
    have "- (lim * k) = lim * (- k)" by simp
    with assms have "- (lim * k) div lim = - k"
      by (metis less_irrefl nonzero_mult_div_cancel_left)
    with k assms show ?thesis unfolding c by simp
  next
    case False
    then have ne: "len mod lim \<noteq> 0" by (simp add: dvd_eq_mod_eq_0)
    moreover from assms have "0 \<le> len mod lim" by simp
    ultimately have "0 < len mod lim" by linarith
    then have lt: "(len div lim) * lim < len"
      using div_mult_mod_eq [of len lim] by linarith
    from False assms have "- len div lim = - (len div lim) - 1"
      by (simp add: zdiv_zminus1_eq_if dvd_eq_mod_eq_0)
    with lt show ?thesis unfolding c by simp
  qed
qed

lemma quotient_ge_2:
  fixes len lim :: int
  assumes "0 < lim" "lim < len"
  shows "2 \<le> \<lceil>real_of_int len / real_of_int lim\<rceil>"
proof -
  from assms have "1 < real_of_int len / real_of_int lim" by simp
  then have "1 < \<lceil>real_of_int len / real_of_int lim\<rceil>" by (simp add: less_ceiling_iff)
  then show ?thesis by simp
qed

text \<open>
  C10. With a positive limit, \<open>getMoreData len\<close> switches \<open>loadMoreData\<close> off and leaves
  \<open>pages\<close> alone when \<open>len\<close> is at most the limit; otherwise it stores the ceiling of
  \<open>len / limit\<close> in \<open>pages\<close>, that ceiling is at least 2, and nothing else changes (so
  \<open>loadMoreData\<close> keeps its value: the single-page branch is never taken).
\<close>

theorem getMoreData_ceiling:
  assumes "0 < limit s"
  shows "(len \<le> limit s \<longrightarrow> getMoreData len s = s\<lparr>loadMoreData := False\<rparr>) \<and>
         (limit s < len \<longrightarrow>
            getMoreData len s = s\<lparr>pages := Some (Fin \<lceil>real_of_int len / real_of_int (limit s)\<rceil>)\<rparr> \<and>
            2 \<le> \<lceil>real_of_int len / real_of_int (limit s)\<rceil>)"
proof (intro conjI impI)
  assume "len \<le> limit s"
  then show "getMoreData len s = s\<lparr>loadMoreData := False\<rparr>"
    by (simp add: getMoreData_def)
next
  assume gt: "limit s < len"
  have c: "(if (len div limit s) * limit s < len then len div limit s + 1 else len div limit s)
           = \<lceil>real_of_int len / real_of_int (limit s)\<rceil>"
    using assms by (rule ceiling_as_floor_step)
  have two: "2 \<le> \<lceil>real_of_int len / real_of_int (limit s)\<rceil>"
    using assms gt by (rule quotient_ge_2)
  then have ne: "\<lceil>real_of_int len / real_of_int (limit s)\<rceil> \<noteq> 1" by linarith
  from assms gt have "getMoreData len s =
      (let p' = (if (len div limit s) * limit s < len then len div limit s + 1 else len div limit s);
           s' = s\<lparr>pages := Some (Fin p')\<rparr>
       in if p' = 1 then s'\<lparr>loadMoreData := False\<rparr> else s')"
    by (simp add: getMoreData_def Let_def)
  also have "\<dots> = s\<lparr>pages := Some (Fin \<lceil>real_of_int len / real_of_int (limit s)\<rceil>)\<rparr>"
    unfolding c Let_def using ne by simp
  finally show "getMoreData len s = s\<lparr>pages := Some (Fin \<lceil>real_of_int len / real_of_int (limit s)\<rceil>)\<rparr>" .
  show "2 \<le> \<lceil>real_of_int len / real_of_int (limit s)\<rceil>" by (rule two)
qed

theorem getMoreData_ceiling_witness:
  "0 < limit example_list \<and>
   getMoreData 5 example_list = example_list\<lparr>loadMoreData := False\<rparr> \<and>
   getMoreData 25 example_list = example_list\<lparr>pages := Some (Fin 3)\<rparr>"
  using getMoreData_ceiling [of example_list 5] getMoreData_ceiling [of example_list 25]
  by (simp add: example_list_def)

section \<open>Properties of the pagination component\<close>

lemma toString_1: "toString 1 = ''1''"
  by code_simp

lemma middle_pages_skipped:
  assumes "5 < tot" "\<forall>i \<in> set xs. 2 \<le> i \<and> i \<le> tot - 2"
  shows "foldl (getPages_step tot) ps xs = ps"
  using assms(2)
proof (induction xs arbitrary: ps)
  case Nil
  show ?case by simp
next
  case (Cons x xs)
  from Cons.prems have x: "2 \<le> x" "x \<le> tot - 2" by simp_all
  with assms(1) have "getPages_step tot ps x = ps"
    by (simp add: getPages_step_def)
  with Cons show ?case by simp
qed

lemma upto_ends:
  assumes "5 < (tot::int)"
  shows "[1..tot] = 1 # [2..tot - 2] @ [tot - 1, tot]"
proof -
  from assms have "[1..tot] = 1 # [2..tot]" by (simp add: upto_rec1)
  also from assms have "[2..tot] = [2..tot - 1] @ [tot]" by (simp add: upto_rec2)
  also from assms have "[2..tot - 1] = [2..tot - 2] @ [tot - 1]"
    using upto_rec2 [of 2 "tot - 1"] by simp
  finally show ?thesis by simp
qed

lemma getPages_large:
  assumes "5 < tot"
  shows "getPages tot cur =
    [PageItem (Some 1) ''01'', PageItem None ''...'',
     PageItem (Some (tot - 1)) (page_label (tot - 1)), PageItem (Some tot) (page_label tot)]"
proof -
  have first: "getPages_step tot [] 1 = [PageItem (Some 1) ''01'']"
    using assms by (simp add: getPages_step_def getPage_def toString_1)
  have mid: "foldl (getPages_step tot) [PageItem (Some 1) ''01''] [2..tot - 2] = [PageItem (Some 1) ''01'']"
    using assms by (intro middle_pages_skipped) auto
  have pen: "getPages_step tot [PageItem (Some 1) ''01''] (tot - 1) =
      [PageItem (Some 1) ''01'', PageItem None ''...'', PageItem (Some (tot - 1)) (page_label (tot - 1))]"
    using assms by (simp add: getPages_step_def getPage_def page_label_def)
  have lst: "getPages_step tot
      [PageItem (Some 1) ''01'', PageItem None ''...'', PageItem (Some (tot - 1)) (page_label (tot - 1))] tot =
      [PageItem (Some 1) ''01'', PageItem None ''...'',
       PageItem (Some (tot - 1)) (page_label (tot - 1)), PageItem (Some tot) (page_label tot)]"
    using assms by (simp add: getPages_step_def getPage_def page_label_def)
  show ?thesis
    unfolding getPages_def upto_ends [OF assms]
    by (simp only: foldl_Cons foldl_append foldl_Nil first mid pen lst)
qed

lemma getPages_small:
  assumes "tot \<le> 5"
  shows "length (getPages tot cur) = nat tot"
proof -
  consider "tot \<le> 0" | "tot = 1" | "tot = 2" | "tot = 3" | "tot = 4" | "tot = 5"
    using assms by linarith
  then show ?thesis
  proof cases
    case 1 then show ?thesis by (simp add: getPages_def)
  next
    case 2
    have "length (getPages 1 cur) = nat 1" by code_simp
    with 2 show ?thesis by simp
  next
    case 3
    have "length (getPages 2 cur) = nat 2" by code_simp
    with 3 show ?thesis by simp
  next
    case 4
    have "length (getPages 3 cur) = nat 3" by code_simp
    with 4 show ?thesis by simp
  next
    case 5
    have "length (getPages 4 cur) = nat 4" by code_simp
    with 5 show ?thesis by simp
  next
    case 6
    have "length (getPages 5 cur) = nat 5" by code_simp
    with 6 show ?thesis by simp
  qed
qed

lemma next_page_bound:
  "next_page (ngOnInit c) =
     (if pg_current c + 1 \<le> (if pg_data c \<le> 5 then max 0 (pg_data c) else 4)
      then Inr (handleClick Next None ((ngOnInit c)\<lparr>pg_current := pg_current c + 1\<rparr>))
      else Inr (ngOnInit c))"
proof (cases "pg_data c \<le> 5")
  case True
  then show ?thesis
    by (simp add: next_page_def ngOnInit_def getPages_small Let_def)
next
  case False
  then have "5 < pg_data c" by simp
  then show ?thesis
    by (simp add: next_page_def ngOnInit_def getPages_large Let_def)
qed

text \<open>
  C2. The documentation of \<^verbatim>\<open>next\<close> promises a move to the next page unless the
  current page is the last one. The method compares with the length of the array of
  displayed entries instead, which is 4 as soon as there are more than 5 pages
  (\<open>next_page_bound\<close>). With 12 pages and the current page at 4, \<open>next_page\<close> changes
  nothing and emits nothing, although page 5 exists; with the current page at 1 it moves
  to page 2 and emits the click event.
\<close>

theorem next_page_stuck_at_4_of_12:
  "next_page (ngOnInit (example_pagination 4)) = Inr (ngOnInit (example_pagination 4)) \<and>
   pg_current (ngOnInit (example_pagination 4)) + 1 \<le> pg_data (ngOnInit (example_pagination 4)) \<and>
   next_page (ngOnInit (example_pagination 1)) =
     Inr ((ngOnInit (example_pagination 1))
           \<lparr>pg_current := 2,
            pg_effects := [Call (BaseCustomEvent CLICK_EVENT (Next, 2) ''PaginationComponent'')]\<rparr>)"
  by code_simp

section \<open>Properties of the form component\<close>

text \<open>
  C6. \<open>submit\<close> adds a submit event to the output exactly when \<open>validateFields\<close>
  accepts the form group. When it rejects, the method returns \<^verbatim>\<open>false\<close> and the
  submit events are as before; when it accepts, exactly one event is added, which
  carries the data of the form group and the name \<open>SUBMIT_EVENT\<close>.
\<close>

theorem submit_emits_iff_valid:
  "(submit_events (cf_effects (snd (submit validateFields getFormData c))) \<noteq> submit_events (cf_effects c))
     = validateFields (formGroup c) \<and>
   (\<not> validateFields (formGroup c) \<longrightarrow>
      fst (submit validateFields getFormData c) = Some False \<and>
      submit_events (cf_effects (snd (submit validateFields getFormData c))) = submit_events (cf_effects c)) \<and>
   (validateFields (formGroup c) \<longrightarrow>
      submit_events (cf_effects (snd (submit validateFields getFormData c))) =
        submit_events (cf_effects c) @
        [BaseCustomEvent SUBMIT_EVENT (getFormData (formGroup c)) ''FormReactiveComponent''])"
  by (simp add: submit_def submit_events_def Let_def)

theorem submit_emits_iff_valid_witness:
  "\<not> example_validateFields (formGroup (example_form [(''name'', False)])) \<and>
   fst (submit example_validateFields example_getFormData (example_form [(''name'', False)])) = Some False \<and>
   submit_events (cf_effects (snd (submit example_validateFields example_getFormData
      (example_form [(''name'', False)])))) = [] \<and>
   example_validateFields (formGroup (example_form [(''name'', True)])) \<and>
   submit_events (cf_effects (snd (submit example_validateFields example_getFormData
      (example_form [(''name'', True)])))) =
     [BaseCustomEvent SUBMIT_EVENT [''name''] ''FormReactiveComponent'']"
  using submit_emits_iff_valid [of example_validateFields example_getFormData "example_form [(''name'', False)]"]
        submit_emits_iff_valid [of example_validateFields example_getFormData "example_form [(''name'', True)]"]
  by (simp add: example_validateFields_def example_getFormData_def example_form_def submit_events_def)

section \<open>Properties of the toast component\<close>

lemma the_instance_notify [simp]: "the_instance (notify msg colour g) = the_instance g"
  by (simp add: notify_def show_def Let_def)

lemma the_instance_methods [simp]:
  "the_instance (inform msg g) = the_instance g"
  "the_instance (success msg g) = the_instance g"
  "the_instance (error msg g) = the_instance g"
  "the_instance (warn msg g) = the_instance g"
  by (simp_all add: inform_def success_def error_def warn_def)

lemma get_when_set: "the_instance g = Some obj \<Longrightarrow> getNgxToastComponent opts g = (obj, g)"
  by (simp add: getNgxToastComponent_def)

lemma get_sets_instance: "the_instance (snd (getNgxToastComponent opts g)) = Some (fst (getNgxToastComponent opts g))"
  by (simp add: getNgxToastComponent_def new_NgxToastComponent_def split: option.splits)

lemma run_when_set:
  "the_instance g = Some obj \<Longrightarrow>
     fst (run steps g) = replicate (length (fst (run steps g))) obj \<and>
     the_instance (snd (run steps g)) = Some obj \<and>
     run (map (with_options f) steps) g = run steps g"
proof (induction steps arbitrary: g)
  case Nil
  then show ?case by simp
next
  case (Cons step steps)
  show ?case
  proof (cases step)
    case (GetComponent opts)
    with Cons.prems Cons.IH [of g] show ?thesis
      by (auto simp add: get_when_set split: prod.splits)
  next
    case (InformStep msg)
    with Cons.prems Cons.IH [of "inform msg g"] show ?thesis by simp
  next
    case (SuccessStep msg)
    with Cons.prems Cons.IH [of "success msg g"] show ?thesis by simp
  next
    case (ErrorStep msg)
    with Cons.prems Cons.IH [of "error msg g"] show ?thesis by simp
  next
    case (WarnStep msg)
    with Cons.prems Cons.IH [of "warn msg g"] show ?thesis by simp
  qed
qed

text \<open>
  C9. After a call of \<open>getNgxToastComponent\<close>, whatever a client does next with the
  module, every further call returns the component that this call returned, the variable
  \<open>the_instance\<close> keeps holding it, and the options handed to the further calls have no
  effect: with any other options in their place the same components are returned and the
  module ends in the same state, with the same toasts created.
\<close>

theorem getNgxToastComponent_singleton:
  "fst (run steps (snd (getNgxToastComponent opts g))) =
     replicate (length (fst (run steps (snd (getNgxToastComponent opts g)))))
       (fst (getNgxToastComponent opts g)) \<and>
   the_instance (snd (run steps (snd (getNgxToastComponent opts g)))) =
     Some (fst (getNgxToastComponent opts g)) \<and>
   run (map (with_options f) steps) (snd (getNgxToastComponent opts g)) =
     run steps (snd (getNgxToastComponent opts g))"
  using run_when_set [OF get_sets_instance] by blast

section \<open>Properties of the model page\<close>

text \<open>
  A page for a read whose model name was never registered: the getter of the repository
  throws before \<open>handleGet\<close> is reached. Without a uid the page does not warn and
  does not navigate back; with the uid 42 it performs no read. In both cases the only
  effect is the logged message of the internal error.
\<close>

theorem unregistered_model_counterexample:
  "operation (example_page READ None False) = READ \<and>
   \<not> uid_truthy (uid (example_page READ None False)) \<and>
   mp_effects (snd (page_refresh example_unregistered_env (example_page READ None False))) =
     [ConsoleError (LStr ''[InternalError] Cannot find model. was it registered with @model?'')] \<and>
   uid_truthy (uid (example_page READ (Some ''42'') False)) \<and>
   mp_effects (snd (page_refresh example_unregistered_env (example_page READ (Some ''42'') False))) =
     [ConsoleError (LStr ''[InternalError] Cannot find model. was it registered with @model?'')]"
  by (simp add: page_refresh_def page_repository_def example_unregistered_env_def example_page_env_def
      example_page_def uid_truthy_def message_or_error_def)

text \<open>
  C5, amended. When the page refreshes for a read, an update or a delete and can reach
  its repository (it holds one, or \<^verbatim>\<open>Model.get\<close> finds the model): with a missing
  uid (undefined or empty) it warns, navigates back to the last page and logs the
  rejection, and no read is performed; with a uid it calls \<open>read\<close> once, with
  \<^verbatim>\<open>Number(uid)\<close>, and does not navigate back. When it cannot reach its repository
  (it holds none and the model is not found), it logs the message of the internal error of
  the getter and does nothing else, whatever the uid: no navigation and no read.
\<close>

theorem page_refresh_uid:
  assumes "operation s = READ \<or> operation s = UPDATE \<or> operation s = DELETE"
  shows "(mp_repository s \<or> constructorFound env \<longrightarrow>
            (\<not> uid_truthy (uid s) \<longrightarrow>
               mp_effects (snd (page_refresh env s)) = mp_effects s @
                 [ConsoleWarn (LStr ''No key passed to model page read operation, backing to last page''),
                  BackToLastPage, ConsoleError (LVal Undefined)]) \<and>
            (uid_truthy (uid s) \<longrightarrow>
               mp_effects (snd (page_refresh env s)) = mp_effects s @
                 Call (RepoRead (toNumber env (uid s))) #
                 (case read env (toNumber env (uid s)) of
                    Inr m \<Rightarrow> [] | Inl e \<Rightarrow> [Call (UnhandledRejection e)]))) \<and>
         (\<not> mp_repository s \<and> \<not> constructorFound env \<longrightarrow>
            mp_effects (snd (page_refresh env s)) = mp_effects s @
              [ConsoleError (message_or_error
                 (page_internalError env ''Cannot find model. was it registered with @model?''))])"
  using assms
  by (auto simp add: page_refresh_def page_repository_def handleGet_def Let_def message_or_error_def
      split: sum.splits prod.splits outcome.splits)

theorem page_refresh_uid_witness:
  "(operation (example_page READ None False) = READ \<or> operation (example_page READ None False) = UPDATE
      \<or> operation (example_page READ None False) = DELETE) \<and>
   (mp_repository (example_page READ None False) \<or> constructorFound (example_page_env None)) \<and>
   \<not> uid_truthy (uid (example_page READ None False)) \<and>
   mp_effects (snd (page_refresh (example_page_env None) (example_page READ None False))) =
     [ConsoleWarn (LStr ''No key passed to model page read operation, backing to last page''),
      BackToLastPage, ConsoleError (LVal Undefined)] \<and>
   uid_truthy (uid (example_page READ (Some ''42'') False)) \<and>
   mp_effects (snd (page_refresh (example_page_env None) (example_page READ (Some ''42'') False))) =
     [Call (RepoRead (Some 42))] \<and>
   \<not> mp_repository (example_page DELETE (Some ''42'') False) \<and>
   \<not> constructorFound example_unregistered_env \<and>
   mp_effects (snd (page_refresh example_unregistered_env (example_page DELETE (Some ''42'') False))) =
     [ConsoleError (LStr ''[InternalError] Cannot find model. was it registered with @model?'')]"
  using page_refresh_uid [of "example_page READ None False" "example_page_env None"]
        page_refresh_uid [of "example_page READ (Some ''42'') False" "example_page_env None"]
        page_refresh_uid [of "example_page DELETE (Some ''42'') False" example_unregistered_env]
  by (simp add: example_page_def example_page_env_def example_unregistered_env_def example_toNumber_def
      uid_truthy_def message_or_error_def)

lemma writes_append [simp]: "writes (xs @ ys) = writes xs @ writes ys"
  by (simp add: writes_def)

lemma writes_simps [simp]:
  "writes [] = []"
  "writes (Call (RepoCreate m) # xs) = RepoCreate m # writes xs"
  "writes (Call (RepoUpdate m) # xs) = RepoUpdate m # writes xs"
  "writes (Call (RepoDelete d) # xs) = RepoDelete d # writes xs"
  "writes (Call (RepoRead n) # xs) = writes xs"
  "writes (Call (RepoRefresh a b c) # xs) = writes xs"
  "writes (Call (UnhandledRejection e) # xs) = writes xs"
  "writes (ConsoleWarn l # xs) = writes xs"
  "writes (ConsoleError l # xs) = writes xs"
  "writes (Toast t # xs) = writes xs"
  "writes (BackToLastPage # xs) = writes xs"
  by (simp_all add: writes_def)

lemma writes_rejection [simp]:
  "writes (case r of None \<Rightarrow> [] | Some e \<Rightarrow> [Call (UnhandledRejection e)]) = []"
  by (cases r) simp_all

text \<open>
  Submits on which the claim fails or says nothing. An update on a page whose routed uid
  is the empty string: \<open>update\<close> receives the model built from the form data as they
  are, and the primary key \<^verbatim>\<open>id\<close> is not among its properties. A create on a page
  with the routed uid 7: \<open>create\<close> receives the model built from the form data and
  the primary key. A read, the default operation, on a page with the routed uid 7:
  \<open>delete\<close> is called, with a model. An update on a page that does not hold its
  repository: no write is made.
\<close>

theorem update_without_uid_counterexample:
  "operation (example_page UPDATE (Some []) True) = UPDATE \<and>
   writes (mp_effects (snd (handleSubmit (example_page_env None) example_data
      (example_page UPDATE (Some []) True)))) =
     [RepoUpdate (PModel (Model_build example_data ''EmployeeModel''))] \<and>
   map_of example_data (pk (example_page_env None)) = None \<and>
   writes (mp_effects (snd (handleSubmit (example_page_env None) example_data
      (example_page CREATE (Some ''7'') True)))) =
     [RepoCreate (PModel (Model_build (example_data @ [(''id'', Inl (KNum (Some 7)))]) ''EmployeeModel''))] \<and>
   operation (example_page READ (Some ''7'') True) = READ \<and>
   writes (mp_effects (snd (handleSubmit (example_page_env None) example_data
      (example_page READ (Some ''7'') True)))) =
     [RepoDelete (PModel (Model_build (example_data @ [(''id'', Inl (KNum (Some 7)))]) ''EmployeeModel''))] \<and>
   \<not> mp_repository (example_page UPDATE (Some ''7'') False) \<and>
   writes (mp_effects (snd (handleSubmit (example_page_env None) example_data
      (example_page UPDATE (Some ''7'') False)))) = []"
  by (simp add: handleSubmit_def submit_try_def parseData_def example_page_def example_page_env_def
      example_data_def example_toNumber_def uid_truthy_def)

text \<open>
  C3, amended. On a page that holds its repository, a submit whose routed operation is
  create, update or delete makes exactly one write call, the one of the routed operation.
  For create and for update the argument is the model built from the form data, in which
  the routed uid is assigned to the primary key when the page has a non-empty uid, and
  which are the form data unchanged when it has none. For delete the argument is the uid
  alone. In both uses the uid is \<^verbatim>\<open>Number(uid)\<close> when the primary key is
  \<^verbatim>\<open>id\<close>, and the routed string otherwise. On a page that does not hold its
  repository a submit makes no write call, whatever the operation.
\<close>

theorem handleSubmit_operation:
  "let u = (if pk env = ''id'' then KNum (toNumber env (uid s))
            else (case uid s of None \<Rightarrow> KUndefined | Some str \<Rightarrow> KStr str));
       m = Model_build (if uid_truthy (uid s) then AList.update (pk env) (Inl u) dat else dat) (modelName s);
       done = writes (mp_effects (snd (handleSubmit env dat s)))
   in (mp_repository s \<and> operation s = CREATE \<longrightarrow> done = writes (mp_effects s) @ [RepoCreate (PModel m)]) \<and>
      (mp_repository s \<and> operation s = UPDATE \<longrightarrow> done = writes (mp_effects s) @ [RepoUpdate (PModel m)]) \<and>
      (mp_repository s \<and> operation s = DELETE \<longrightarrow> done = writes (mp_effects s) @ [RepoDelete (PKey u)]) \<and>
      (\<not> mp_repository s \<longrightarrow> done = writes (mp_effects s))"
proof (cases "mp_repository s")
  case False
  then show ?thesis
    by (simp add: handleSubmit_def submit_try_def parseData_def Let_def)
next
  case True
  show ?thesis
  proof (cases "operation s")
    case CREATE
    with True show ?thesis
      by (simp add: handleSubmit_def submit_try_def parseData_def Let_def split: sum.splits)
  next
    case READ
    with True show ?thesis by (simp add: Let_def)
  next
    case UPDATE
    with True show ?thesis
      by (simp add: handleSubmit_def submit_try_def parseData_def Let_def split: sum.splits)
  next
    case DELETE
    with True show ?thesis
      by (simp add: handleSubmit_def submit_try_def parseData_def Let_def)
  qed
qed

theorem handleSubmit_operation_witness:
  "mp_repository (example_page UPDATE (Some ''7'') True) \<and>
   writes (mp_effects (snd (handleSubmit (example_page_env None) example_data
      (example_page CREATE None True)))) =
     [RepoCreate (PModel (Model_build example_data ''EmployeeModel''))] \<and>
   writes (mp_effects (snd (handleSubmit (example_page_env None) example_data
      (example_page UPDATE (Some ''7'') True)))) =
     [RepoUpdate (PModel (Model_build (example_data @ [(''id'', Inl (KNum (Some 7)))]) ''EmployeeModel''))] \<and>
   writes (mp_effects (snd (handleSubmit (example_page_env None) example_data
      (example_page DELETE (Some ''7'') True)))) =
     [RepoDelete (PKey (KNum (Some 7)))] \<and>
   \<not> mp_repository (example_page DELETE (Some ''7'') False) \<and>
   writes (mp_effects (snd (handleSubmit (example_page_env None) example_data
      (example_page DELETE (Some ''7'') False)))) = []"
  using handleSubmit_operation [of "example_page_env None" "example_page CREATE None True" example_data]
        handleSubmit_operation [of "example_page_env None" "example_page UPDATE (Some ''7'') True" example_data]
        handleSubmit_operation [of "example_page_env None" "example_page DELETE (Some ''7'') True" example_data]
        handleSubmit_operation [of "example_page_env None" "example_page DELETE (Some ''7'') False" example_data]
  by (simp add: example_page_def example_page_env_def example_toNumber_def uid_truthy_def
      example_data_def Let_def)

section \<open>Refreshing the list\<close>

lemma refresh_events_simps [simp]:
  "refresh_events [] = []"
  "refresh_events (xs @ ys) = refresh_events xs @ refresh_events ys"
  "refresh_events (Call (RefreshEmit ev) # xs) = ev # refresh_events xs"
  "refresh_events (Call TargetComplete # xs) = refresh_events xs"
  "refresh_events (ConsoleWarn l # xs) = refresh_events xs"
  "refresh_events (ConsoleError l # xs) = refresh_events xs"
  "refresh_events (Toast t # xs) = refresh_events xs"
  "refresh_events (BackToLastPage # xs) = refresh_events xs"
  by (simp_all add: refresh_events_def)

lemma getMoreData_frame [simp]:
  "effects (getMoreData n s) = effects s"
  "componentName (getMoreData n s) = componentName s"
  "items (getMoreData n s) = items s"
  "data (getMoreData n s) = data s"
  "type (getMoreData n s) = type s"
  "limit (getMoreData n s) = limit s"
  "page (getMoreData n s) = page s"
  "searchValue (getMoreData n s) = searchValue s"
  "mapper (getMoreData n s) = mapper s"
  "paginator (getMoreData n s) = paginator s"
  by (simp_all add: getMoreData_def Let_def)

lemma parseResult_frame:
  assumes "parseResult r s = (x, s1)"
  shows "effects s1 = effects s \<and> componentName s1 = componentName s \<and> items s1 = items s \<and>
    data s1 = data s \<and> type s1 = type s \<and> limit s1 = limit s \<and> page s1 = page s \<and>
    searchValue s1 = searchValue s"
  using assms
  by (auto simp add: parseResult_def Let_def split: query_result.splits sum.splits option.splits prod.splits)



lemma repository_get_frame:
  assumes "repository_get env s = (x, s1)"
  shows "effects s1 = effects s \<and> componentName s1 = componentName s \<and> items s1 = items s \<and>
    data s1 = data s \<and> type s1 = type s \<and> limit s1 = limit s \<and> page s1 = page s \<and>
    searchValue s1 = searchValue s \<and> paginator s1 = paginator s"
  using assms by (auto simp add: repository_get_def split: if_splits)

lemma model_try_frame:
  assumes "model_try env dat s = (x, s1)"
  shows "effects s1 = effects s \<and> componentName s1 = componentName s \<and> items s1 = items s \<and>
    type s1 = type s \<and> limit s1 = limit s \<and> page s1 = page s \<and> searchValue s1 = searchValue s"
  using assms
  unfolding model_try_def Let_def
  by (auto split: if_splits sum.splits prod.splits option.splits dest!: parseResult_frame)



lemma refreshEventEmit_frame [simp]:
  "items (refreshEventEmit dat s) = items s"
  "data (refreshEventEmit dat s) = data s"
  "type (refreshEventEmit dat s) = type s"
  "page (refreshEventEmit dat s) = page s"
  "componentName (refreshEventEmit dat s) = componentName s"
  "effects (refreshEventEmit None s) = effects s @
     [Call (RefreshEmit (BaseCustomEvent REFRESH_EVENT (or_empty (items s)) (componentName s)))]"
  by (simp_all add: refreshEventEmit_def Let_def)

lemma request_tail_items [simp]:
  "items (snd (request_tail s)) = items s" "fst (request_tail s) = Inr (or_empty (data s))"
  by (simp_all add: request_tail_def Let_def)




lemma model_try_value:
  "fst (model_try env dat s) =
     (case (if has_length (searchValue s) then execute env (or_empty (searchValue s))
            else case (case paginator s of Some p \<Rightarrow> Inr p | None \<Rightarrow> paginate env (limit s)) of
                   Inl e \<Rightarrow> Inl e | Inr p \<Rightarrow> p (page s)) of
        Inl e \<Rightarrow> Inl e
      | Inr rs \<Rightarrow>
          (case mapped s rs of
             Inl e \<Rightarrow> Inl e
           | Inr request \<Rightarrow>
               Inr (if type s = INFINITE \<and> \<not> has_length (searchValue s) then dat @ request
                    else request)))"
  by (auto simp add: model_try_def parseResult_def Let_def mapped_def
      split: option.splits sum.splits prod.splits)

lemma repository_get_cases:
  assumes "repository_get env s = (Inr (), s0)"
  shows "s0 = s \<or> s0 = s\<lparr>repository := True, model := True\<rparr>"
  using assms by (auto simp add: repository_get_def split: if_splits)

lemma model_try_after_get:
  assumes "repository_get env s = (Inr (), s0)"
  shows "fst (model_try env dat s0) = fst (model_try env dat s)"
proof -
  have "fst (model_try env dat (s\<lparr>repository := True, model := True\<rparr>)) = fst (model_try env dat s)"
    unfolding model_try_value mapped_def by (simp cong: sum.case_cong option.case_cong if_cong)
  with repository_get_cases [OF assms] show ?thesis by auto
qed




lemma refresh_finish_items [simp]: "items (snd (refresh_finish ev s)) = items s"
  by (simp add: refresh_finish_def split: refresh_event.splits)










text \<open>
  C1. The claim fails on the code for a limit above 12: \<open>refresh\<close> takes the first
  index of the slice from the limit, \<^verbatim>\<open>(page - 1) * limit\<close>, and the last from the
  limit cut down to 12, \<^verbatim>\<open>page * (limit > 12 ? 12 : limit)\<close>. A paginated list with
  limit 20 over a source of 25 items shows the items 0 to 11 on page 1 and the items 20 to
  23 on page 2, of the 2 pages it counts; the items 12 to 19 and the item 24 are on no
  page. The same list bound to a model shows the items 0 to 19 on page 1. In infinite
  mode the second refresh appends the items 20 to 23 to the items 0 to 11, which is not a
  prefix of the data.
\<close>

theorem refresh_caps_end_of_slice_only:
  "limit example_wide_list = 20 \<and>
   source example_wide_list = SourceFunction (Inr (RArray [0..<25])) \<and>
   items (snd (refresh example_list_env (Flag True) example_wide_list)) = Some [0..<12] \<and>
   pages (snd (refresh example_list_env (Flag True) example_wide_list)) = Some (Fin 2) \<and>
   items (snd (refresh example_list_env (Flag True) (example_wide_list\<lparr>page := 2\<rparr>))) =
     Some [20..<24] \<and>
   items (snd (refresh example_list_env (Flag True) (example_wide_list\<lparr>model := True\<rparr>))) =
     Some [0..<20] \<and>
   page (snd (refresh example_list_env (Flag True) (example_wide_list\<lparr>type := INFINITE\<rparr>))) = 2 \<and>
   items (snd (refresh example_list_env (Flag True)
            (snd (refresh example_list_env (Flag True) (example_wide_list\<lparr>type := INFINITE\<rparr>))))) =
     Some ([0..<12] @ [20..<24])"
  by code_simp

section \<open>Errors of repository calls\<close>

lemma getFromModel_catches:
  assumes avail: "repository s \<or> modelRegistered env"
    and trig: "\<not> has_length (data s) \<or> force \<or> has_length (searchValue s)"
    and fail: "fst (model_try env (or_empty (data s)) s) = Inl e"
  shows "fst (getFromModel env force st lm s) = Inr (or_empty (data s)) \<and>
         effects (snd (getFromModel env force st lm s)) =
           effects s @ [ConsoleError (LStr (case message e of Some m \<Rightarrow> m | None \<Rightarrow> unable_to_find env))]"
proof -
  from avail have rg: "repository_get env s = (Inr (), snd (repository_get env s))"
    by (auto simp add: repository_get_def)
  define s0 where "s0 = snd (repository_get env s)"
  from rg have rg0: "repository_get env s = (Inr (), s0)" by (simp add: s0_def)
  from fail model_try_after_get [OF rg0]
  have fail0: "fst (model_try env (or_empty (data s)) s0) = Inl e" by simp
  obtain s1 where mt: "model_try env (or_empty (data s)) s0 = (Inl e, s1)"
    using fail0 by (cases "model_try env (or_empty (data s)) s0") simp
  from repository_get_frame [OF rg0]
  have s0: "effects s0 = effects s" "data s0 = data s" "searchValue s0 = searchValue s" by simp_all
  from model_try_frame [OF mt] s0 have s1: "effects s1 = effects s" by simp
  from trig s0 have trig0: "\<not> has_length (data s0) \<or> force \<or> has_length (searchValue s0)" by simp
  show ?thesis
    unfolding getFromModel_def Let_def rg0
    using trig0 mt s1 by (simp split: if_splits)
qed

text \<open>
  Repository errors that are not caught, logged and shown as a toast. A create that
  throws: the error is logged and thrown again, wrapped in a new error, to the caller of
  \<open>handleSubmit\<close>; no toast is shown. A delete whose promise is rejected: the
  rejection is handled by nobody and nothing is logged, and the page navigates back and
  shows the toast of success. A read that throws during the refresh of the page: the
  rejection is handled by nobody, nothing is logged, and the refresh never ends. A
  paginator that throws while a list that holds the data 7, 8, 9 is refreshed: the error is
  logged, no toast is shown, and the list keeps 7, 8, 9 instead of falling back to the
  empty list.
\<close>

theorem failed_create_counterexample:
  "handleSubmit (example_page_env (Some (Error ''boom''))) example_data (example_page CREATE None True) =
     (Inl (Error ''Error: boom''),
      (example_page CREATE None True)
        \<lparr>mp_effects := [Call (RepoCreate (PModel (Model_build example_data ''EmployeeModel''))),
                        ConsoleError (LStr ''boom'')]\<rparr>) \<and>
   handleSubmit (example_page_env (Some (Error ''boom''))) example_data
       (example_page DELETE (Some ''7'') True) =
     (Inr (),
      (example_page DELETE (Some ''7'') True)
        \<lparr>mp_effects := [Call (RepoDelete (PKey (KNum (Some 7)))),
                        Call (UnhandledRejection (Error ''boom'')),
                        Call (RepoRefresh ''EmployeeModel'' DELETE (Some ''7'')),
                        BackToLastPage, Toast ''delete Item successfully'']\<rparr>) \<and>
   fst (page_refresh (example_page_env (Some (Error ''boom''))) (example_page READ (Some ''42'') True)) =
     Pending \<and>
   mp_effects (snd (page_refresh (example_page_env (Some (Error ''boom'')))
       (example_page READ (Some ''42'') True))) =
     [Call (RepoRead (Some 42)), Call (UnhandledRejection (Error ''boom''))] \<and>
   fst (getFromModel example_failing_env True 0 10 example_model_list) = Inr [7, 8, 9] \<and>
   effects (snd (getFromModel example_failing_env True 0 10 example_model_list)) =
     [ConsoleError (LStr ''offline'')]"
proof -
  have "fst (getFromModel example_failing_env True 0 10 example_model_list) = Inr [7, 8, 9]"
    "effects (snd (getFromModel example_failing_env True 0 10 example_model_list)) =
       [ConsoleError (LStr ''offline'')]"
    by code_simp+
  then show ?thesis
    by (simp add: handleSubmit_def submit_try_def parseData_def page_refresh_def page_repository_def
        handleGet_def example_page_def example_page_env_def example_toNumber_def
        uid_truthy_def message_or_error_def new_Error_def Let_def)
qed

text \<open>
  C4, amended. When \<open>create\<close> or \<open>update\<close> throws during \<open>handleSubmit\<close>, the
  method logs the message of the error, or the error itself when it has none, and throws a
  new error made from it to its caller; these are its only effects after the call, so it
  shows no toast and does not navigate back. When the query, the paginator or the mapping
  of the rows throws during \<open>getFromModel\<close> on a list that can reach its repository,
  the method logs the message of the error, or the text
  \<^verbatim>\<open>Unable to find ... on registry. Return empty array from component\<close> when it has
  none; this is its only effect, so it shows no toast, and it returns the data the list
  held before, the empty list when it held none.
\<close>

theorem repository_errors_logged:
  "(parseData penv dat p = Inr d \<and>
      (operation p = CREATE \<and> create penv d = Inl e \<or> operation p = UPDATE \<and> update penv d = Inl e)
    \<longrightarrow> handleSubmit penv dat p =
          (Inl (new_Error e),
           p\<lparr>mp_effects := mp_effects p @
                [Call (if operation p = CREATE then RepoCreate d else RepoUpdate d),
                 ConsoleError (message_or_error e)]\<rparr>)) \<and>
   ((repository s \<or> modelRegistered env) \<and>
      (\<not> has_length (data s) \<or> force \<or> has_length (searchValue s)) \<and>
      (case (if has_length (searchValue s) then execute env (or_empty (searchValue s))
             else case paginator s of
                    Some pg \<Rightarrow> pg (page s)
                  | None \<Rightarrow> (case paginate env (limit s) of
                               Inl x \<Rightarrow> Inl x | Inr pg \<Rightarrow> pg (page s))) of
         Inl x \<Rightarrow> Inl x
       | Inr rs \<Rightarrow> (case mapper s of None \<Rightarrow> Inr rs | Some f \<Rightarrow> mapResults f rs)) = Inl e'
    \<longrightarrow> fst (getFromModel env force st lm s) = Inr (or_empty (data s)) \<and>
        effects (snd (getFromModel env force st lm s)) =
          effects s @ [ConsoleError (LStr (case message e' of Some msg \<Rightarrow> msg
                                           | None \<Rightarrow> unable_to_find env))])"
proof (intro conjI impI)
  assume a: "parseData penv dat p = Inr d \<and>
      (operation p = CREATE \<and> create penv d = Inl e \<or> operation p = UPDATE \<and> update penv d = Inl e)"
  then show "handleSubmit penv dat p =
          (Inl (new_Error e),
           p\<lparr>mp_effects := mp_effects p @
                [Call (if operation p = CREATE then RepoCreate d else RepoUpdate d),
                 ConsoleError (message_or_error e)]\<rparr>)"
    by (auto simp add: handleSubmit_def submit_try_def)
next
  assume b: "(repository s \<or> modelRegistered env) \<and>
      (\<not> has_length (data s) \<or> force \<or> has_length (searchValue s)) \<and>
      (case (if has_length (searchValue s) then execute env (or_empty (searchValue s))
             else case paginator s of
                    Some pg \<Rightarrow> pg (page s)
                  | None \<Rightarrow> (case paginate env (limit s) of
                               Inl x \<Rightarrow> Inl x | Inr pg \<Rightarrow> pg (page s))) of
         Inl x \<Rightarrow> Inl x
       | Inr rs \<Rightarrow> (case mapper s of None \<Rightarrow> Inr rs | Some f \<Rightarrow> mapResults f rs)) = Inl e'"
  then have b1: "repository s \<or> modelRegistered env"
    and b2: "\<not> has_length (data s) \<or> force \<or> has_length (searchValue s)"
    and b3: "(case (if has_length (searchValue s) then execute env (or_empty (searchValue s))
             else case paginator s of
                    Some pg \<Rightarrow> pg (page s)
                  | None \<Rightarrow> (case paginate env (limit s) of
                               Inl x \<Rightarrow> Inl x | Inr pg \<Rightarrow> pg (page s))) of
         Inl x \<Rightarrow> Inl x
       | Inr rs \<Rightarrow> (case mapper s of None \<Rightarrow> Inr rs | Some f \<Rightarrow> mapResults f rs)) = Inl e'"
    by blast+
  have mt: "fst (model_try env (or_empty (data s)) s) = Inl e'"
    using b3 unfolding model_try_value mapped_def
    by (cases "paginator s") (auto split: sum.splits if_splits)
  have "fst (getFromModel env force st lm s) = Inr (or_empty (data s)) \<and>
         effects (snd (getFromModel env force st lm s)) =
           effects s @ [ConsoleError (LStr (case message e' of Some m \<Rightarrow> m | None \<Rightarrow> unable_to_find env))]"
    using b1 b2 mt by (rule getFromModel_catches)
  then show "fst (getFromModel env force st lm s) = Inr (or_empty (data s))"
    and "effects (snd (getFromModel env force st lm s)) =
          effects s @ [ConsoleError (LStr (case message e' of Some msg \<Rightarrow> msg
                                           | None \<Rightarrow> unable_to_find env))]"
    by simp_all
qed

theorem repository_errors_logged_witness:
  "parseData (example_page_env (Some (Error ''boom''))) example_data (example_page UPDATE (Some ''7'') True) =
     Inr (PModel (Model_build (example_data @ [(''id'', Inl (KNum (Some 7)))]) ''EmployeeModel'')) \<and>
   update (example_page_env (Some (Error ''boom'')))
     (PModel (Model_build (example_data @ [(''id'', Inl (KNum (Some 7)))]) ''EmployeeModel'')) = Inl (Error ''boom'') \<and>
   handleSubmit (example_page_env (Some (Error ''boom''))) example_data (example_page UPDATE (Some ''7'') True) =
     (Inl (Error ''Error: boom''),
      (example_page UPDATE (Some ''7'') True)
        \<lparr>mp_effects :=
           [Call (RepoUpdate (PModel (Model_build (example_data @ [(''id'', Inl (KNum (Some 7)))]) ''EmployeeModel''))),
            ConsoleError (LStr ''boom'')]\<rparr>) \<and>
   modelRegistered example_failing_env \<and>
   paginator example_model_list = None \<and>
   \<not> has_length (searchValue example_model_list) \<and>
   paginate example_failing_env (limit example_model_list) = Inl (Error ''offline'') \<and>
   fst (getFromModel example_failing_env True 0 10 example_model_list) = Inr [7, 8, 9] \<and>
   effects (snd (getFromModel example_failing_env True 0 10 example_model_list)) =
     [ConsoleError (LStr ''offline'')]"
proof -
  have a2: "parseData (example_page_env (Some (Error ''boom''))) example_data (example_page UPDATE (Some ''7'') True) =
     Inr (PModel (Model_build (example_data @ [(''id'', Inl (KNum (Some 7)))]) ''EmployeeModel''))"
    by (simp add: parseData_def example_page_def example_page_env_def example_toNumber_def
        uid_truthy_def example_data_def)
  have a3: "update (example_page_env (Some (Error ''boom'')))
     (PModel (Model_build (example_data @ [(''id'', Inl (KNum (Some 7)))]) ''EmployeeModel'')) = Inl (Error ''boom'')"
    by (simp add: example_page_env_def)
  have a4: "operation (example_page UPDATE (Some ''7'') True) = UPDATE"
    "mp_effects (example_page UPDATE (Some ''7'') True) = []"
    by (simp_all add: example_page_def)
  have b: "modelRegistered example_failing_env" "paginator example_model_list = None"
    "\<not> has_length (searchValue example_model_list)"
    "paginate example_failing_env (limit example_model_list) = Inl (Error ''offline'')"
    "mapper example_model_list = None"
    by (simp_all add: example_failing_env_def example_list_env_def example_model_list_def
        example_list_def has_length_def)
  have d: "or_empty (data example_model_list) = [7, 8, 9]" "effects example_model_list = []"
    by (simp_all add: example_model_list_def example_list_def or_empty_def)
  from repository_errors_logged [of "example_page_env (Some (Error ''boom''))" example_data
      "example_page UPDATE (Some ''7'') True"
      "PModel (Model_build (example_data @ [(''id'', Inl (KNum (Some 7)))]) ''EmployeeModel'')"
      "Error ''boom''" example_model_list example_failing_env True "Error ''offline''" 0 10]
    a2 a3 a4 b d
  show ?thesis by (simp add: message_or_error_def new_Error_def)
qed

end
